theory Spec2Isabelle
  imports Main "HOL-Library.Sublist"
begin

section \<open>Timestamps\<close>

text \<open>
  The models of \<^verbatim>\<open>openprocurement/auctions/dgf/models.py\<close> work on timezone-aware
  \<^verbatim>\<open>datetime\<close> values. Such a value is an instant (microseconds since the epoch, in UTC)
  together with the zone it is expressed in. Python compares aware datetimes by their
  instant alone; \<^verbatim>\<open>astimezone\<close> keeps the instant and replaces the zone. A
  \<^verbatim>\<open>timedelta\<close> is a number of microseconds.
\<close>

type_synonym timezone = string
type_synonym timedelta = int

record datetime =
  instant :: int
  tzinfo :: timezone

definition astimezone :: "datetime \<Rightarrow> timezone \<Rightarrow> datetime" where
  "astimezone d z = d\<lparr>tzinfo := z\<rparr>"

definition timedelta_days :: "int \<Rightarrow> timedelta" where
  "timedelta_days n = n * 86400000000"

text \<open>
  Python's \<^verbatim>\<open>min\<close> and \<^verbatim>\<open>max\<close> scan from the left and replace the current choice only
  by a strictly smaller (strictly greater) item, so the first of several equal instants wins.
  Both are only called on lists the source has checked to be non-empty; the first element
  is the start value.
\<close>

fun min_from :: "datetime \<Rightarrow> datetime list \<Rightarrow> datetime" where
  "min_from m [] = m"
| "min_from m (x # xs) = min_from (if instant x < instant m then x else m) xs"

fun max_from :: "datetime \<Rightarrow> datetime list \<Rightarrow> datetime" where
  "max_from m [] = m"
| "max_from m (x # xs) = max_from (if instant m < instant x then x else m) xs"

definition startswith :: "string \<Rightarrow> string \<Rightarrow> bool" where
  "startswith s p = prefix p s"

datatype error = AttributeError | TypeError | ValidationError string

section \<open>Data model\<close>

record Period =
  startDate :: "datetime option"
  endDate :: "datetime option"

record Complaint =
  status :: string
  dateSubmitted :: "datetime option"
  dateAnswered :: "datetime option"
  relatedLot :: "string option"

record Award =
  lotID :: "string option"
  status :: string
  complaintPeriod :: "Period option"
  complaints :: "Complaint list"

record Lot =
  id :: string
  status :: string
  auctionPeriod :: "Period option"
  numberOfBids :: int

record Auction =
  status :: string
  procurementMethodType :: string
  enquiryPeriod :: "Period option"
  tenderPeriod :: "Period option"
  auctionPeriod :: "Period option"
  numberOfBids :: int
  lots :: "Lot list"
  awards :: "Award list"
  complaints :: "Complaint list"

text \<open>
  \<^verbatim>\<open>p and p.endDate\<close>: the end date of a period that may itself be missing
  (a model instance and a datetime are always true in Python).
\<close>

definition period_startDate :: "Period option \<Rightarrow> datetime option" where
  "period_startDate p = (case p of None \<Rightarrow> None | Some q \<Rightarrow> startDate q)"

definition period_endDate :: "Period option \<Rightarrow> datetime option" where
  "period_endDate p = (case p of None \<Rightarrow> None | Some q \<Rightarrow> endDate q)"

subsection \<open>What the module imports\<close>

text \<open>
  \<^verbatim>\<open>TZ\<close>, \<^verbatim>\<open>get_now\<close>, \<^verbatim>\<open>calc_auction_end_time\<close>, \<^verbatim>\<open>calculate_business_date\<close>,
  \<^verbatim>\<open>COMPLAINT_STAND_STILL_TIME\<close> and the class attribute \<^verbatim>\<open>block_complaint_status\<close> come
  from other packages, and \<^verbatim>\<open>isoformat\<close> and \<^verbatim>\<open>URLType().validate\<close> from libraries.
  They are parameters of the model. \<^verbatim>\<open>URLType_validate u\<close> is true when the library
  accepts \<^verbatim>\<open>u\<close> and false when it raises a validation error.
\<close>

record env =
  TZ :: timezone
  get_now :: datetime
  calc_auction_end_time :: "int \<Rightarrow> datetime \<Rightarrow> datetime"
  calculate_business_date :: "datetime \<Rightarrow> timedelta \<Rightarrow> Auction \<Rightarrow> datetime"
  COMPLAINT_STAND_STILL_TIME :: timedelta
  block_complaint_status :: "string list"
  isoformat :: "datetime \<Rightarrow> string"
  URLType_validate :: "string option \<Rightarrow> bool"

section \<open>Auction.next\_check\<close>

text \<open>
  Lines 143--146 and 151--154: the deadline of a running auction that started at \<open>start\<close>
  with \<open>n\<close> bids.
\<close>

definition auction_round_checks :: "env \<Rightarrow> int \<Rightarrow> datetime \<Rightarrow> datetime list" where
  "auction_round_checks env n start =
     (if instant (get_now env) < instant start then [astimezone start (TZ env)]
      else if instant (get_now env)
                < instant (astimezone (calc_auction_end_time env n start) (TZ env))
      then [astimezone (calc_auction_end_time env n start) (TZ env)]
      else [])"

text \<open>Lines 148--154: the body of the loop over the lots of an auction in \<^verbatim>\<open>active.auction\<close>.\<close>

definition lot_auction_checks :: "env \<Rightarrow> Lot \<Rightarrow> datetime list" where
  "lot_auction_checks env lot =
     (if Lot.status lot \<noteq> ''active'' \<or> Lot.auctionPeriod lot = None
         \<or> period_startDate (Lot.auctionPeriod lot) = None
         \<or> period_endDate (Lot.auctionPeriod lot) \<noteq> None
      then []
      else auction_round_checks env (Lot.numberOfBids lot)
             (the (period_startDate (Lot.auctionPeriod lot))))"

fun lots_auction_checks :: "env \<Rightarrow> Lot list \<Rightarrow> datetime list" where
  "lots_auction_checks env [] = []"
| "lots_auction_checks env (lot # ls) = lot_auction_checks env lot @ lots_auction_checks env ls"

text \<open>\<^verbatim>\<open>i.status in self.block_complaint_status\<close>\<close>

definition blocking :: "env \<Rightarrow> Complaint \<Rightarrow> bool" where
  "blocking env i = (Complaint.status i \<in> set (block_complaint_status env))"

text \<open>
  Lines 163--167 and 189--193: \<^verbatim>\<open>a.complaintPeriod.endDate\<close> is read without a test of
  \<^verbatim>\<open>a.complaintPeriod\<close>, so an award without a complaint period raises.
\<close>

fun standStillEnds :: "env \<Rightarrow> Award list \<Rightarrow> error + datetime list" where
  "standStillEnds env [] = Inr []"
| "standStillEnds env (a # as) =
     (case complaintPeriod a of
        None \<Rightarrow> Inl AttributeError
      | Some p \<Rightarrow>
          (case standStillEnds env as of
             Inl e \<Rightarrow> Inl e
           | Inr ds \<Rightarrow>
               Inr (case endDate p of None \<Rightarrow> ds | Some d \<Rightarrow> astimezone d (TZ env) # ds)))"

definition last_award_status :: "Award list \<Rightarrow> string" where
  "last_award_status aw = (if aw \<noteq> [] then Award.status (last aw) else [])"

text \<open>Lines 163--171: an auction without lots in \<^verbatim>\<open>active.awarded\<close>.\<close>

definition awarded_checks :: "env \<Rightarrow> Award list \<Rightarrow> error + datetime list" where
  "awarded_checks env aw =
     (case standStillEnds env aw of
        Inl e \<Rightarrow> Inl e
      | Inr ends \<Rightarrow>
          Inr (case ends of
                 [] \<Rightarrow> []
               | d # ds \<Rightarrow>
                   if last_award_status aw = ''unsuccessful'' then [max_from d ds] else []))"

text \<open>Lines 177--196: the body of the loop over the lots, and the loop.\<close>

definition lot_awards :: "Auction \<Rightarrow> Lot \<Rightarrow> Award list" where
  "lot_awards a lot = filter (\<lambda>i. lotID i = Some (Lot.id lot)) (awards a)"

definition pending_complaints :: "env \<Rightarrow> Auction \<Rightarrow> Lot \<Rightarrow> bool" where
  "pending_complaints env a lot =
     list_ex (\<lambda>i. blocking env i \<and> relatedLot i = Some (Lot.id lot)) (Auction.complaints a)"

definition pending_awards_complaints :: "env \<Rightarrow> Auction \<Rightarrow> Lot \<Rightarrow> bool" where
  "pending_awards_complaints env a lot =
     list_ex (\<lambda>w. list_ex (blocking env) (Award.complaints w)) (lot_awards a lot)"

definition lot_awarded_checks :: "env \<Rightarrow> Auction \<Rightarrow> Lot \<Rightarrow> error + datetime list" where
  "lot_awarded_checks env a lot =
     (if Lot.status lot \<noteq> ''active'' then Inr []
      else
        (case standStillEnds env (lot_awards a lot) of
           Inl e \<Rightarrow> Inl e
         | Inr ends \<Rightarrow>
             Inr (case ends of
                    [] \<Rightarrow> []
                  | d # ds \<Rightarrow>
                      if \<not> pending_complaints env a lot \<and> \<not> pending_awards_complaints env a lot
                         \<and> last_award_status (lot_awards a lot) = ''unsuccessful''
                      then [max_from d ds]
                      else [])))"

fun lots_awarded_checks :: "env \<Rightarrow> Auction \<Rightarrow> Lot list \<Rightarrow> error + datetime list" where
  "lots_awarded_checks env a [] = Inr []"
| "lots_awarded_checks env a (lot # ls) =
     (case lot_awarded_checks env a lot of
        Inl e \<Rightarrow> Inl e
      | Inr cs \<Rightarrow>
          (case lots_awarded_checks env a ls of
             Inl e \<Rightarrow> Inl e
           | Inr rest \<Rightarrow> Inr (cs @ rest)))"

text \<open>Lines 140--196: the chain of \<^verbatim>\<open>if\<close>/\<^verbatim>\<open>elif\<close>; the first branch whose test holds runs.\<close>

definition branch_checks :: "env \<Rightarrow> Auction \<Rightarrow> error + datetime list" where
  "branch_checks env a =
     (if Auction.status a = ''active.tendering'' \<and> period_endDate (tenderPeriod a) \<noteq> None
      then Inr [astimezone (the (period_endDate (tenderPeriod a))) (TZ env)]
      else if lots a = [] \<and> Auction.status a = ''active.auction''
              \<and> period_startDate (Auction.auctionPeriod a) \<noteq> None
              \<and> period_endDate (Auction.auctionPeriod a) = None
      then Inr (auction_round_checks env (Auction.numberOfBids a)
                  (the (period_startDate (Auction.auctionPeriod a))))
      else if lots a \<noteq> [] \<and> Auction.status a = ''active.auction''
      then Inr (lots_auction_checks env (lots a))
      else if lots a = [] \<and> Auction.status a = ''active.awarded''
              \<and> \<not> list_ex (blocking env) (Auction.complaints a)
              \<and> \<not> list_ex (\<lambda>w. list_ex (blocking env) (Award.complaints w)) (awards a)
      then awarded_checks env (awards a)
      else if lots a \<noteq> []
              \<and> Auction.status a \<in> set [''active.qualification'', ''active.awarded'']
              \<and> \<not> list_ex (\<lambda>i. blocking env i \<and> relatedLot i = None) (Auction.complaints a)
      then lots_awarded_checks env a (lots a)
      else Inr [])"

text \<open>Lines 197--209: the stand-still deadlines of claims and answered claims.\<close>

definition complaint_check :: "env \<Rightarrow> Auction \<Rightarrow> Complaint \<Rightarrow> datetime list" where
  "complaint_check env a c =
     (if Complaint.status c = ''claim'' \<and> dateSubmitted c \<noteq> None
      then [calculate_business_date env (the (dateSubmitted c)) (COMPLAINT_STAND_STILL_TIME env) a]
      else if Complaint.status c = ''answered'' \<and> dateAnswered c \<noteq> None
      then [calculate_business_date env (the (dateAnswered c)) (COMPLAINT_STAND_STILL_TIME env) a]
      else [])"

definition all_complaints :: "Auction \<Rightarrow> Complaint list" where
  "all_complaints a = Auction.complaints a @ concat (map Award.complaints (awards a))"

definition complaint_checks :: "env \<Rightarrow> Auction \<Rightarrow> datetime list" where
  "complaint_checks env a =
     (if startswith (Auction.status a) ''active''
      then concat (map (complaint_check env a) (all_complaints a))
      else [])"

definition checks :: "env \<Rightarrow> Auction \<Rightarrow> error + datetime list" where
  "checks env a =
     (case branch_checks env a of
        Inl e \<Rightarrow> Inl e
      | Inr cs \<Rightarrow> Inr (cs @ complaint_checks env a))"

definition next_check :: "env \<Rightarrow> Auction \<Rightarrow> error + string option" where
  "next_check env a =
     (case checks env a of
        Inl e \<Rightarrow> Inl e
      | Inr [] \<Rightarrow> Inr None
      | Inr (c # cs) \<Rightarrow> Inr (Some (isoformat env (min_from c cs))))"

section \<open>Auction: defaults, the serialized tender period, its validator\<close>

text \<open>
  Lines 97--108: the fields of \<^verbatim>\<open>Auction\<close> and their defaults. An auction made from input
  that gives no status has the declared default; the list fields default to the empty
  list, the periods to nothing, and \<^verbatim>\<open>numberOfBids\<close> counts the (absent) bids.
\<close>

definition new_Auction :: "string option \<Rightarrow> string option \<Rightarrow> Auction" where
  "new_Auction given_status given_procurementMethodType =
     \<lparr>Auction.status = (case given_status of None \<Rightarrow> ''active.tendering'' | Some s \<Rightarrow> s),
      procurementMethodType =
        (case given_procurementMethodType of None \<Rightarrow> ''dgfOtherAssets'' | Some s \<Rightarrow> s),
      enquiryPeriod = None, tenderPeriod = None, Auction.auctionPeriod = None,
      Auction.numberOfBids = 0, lots = [], awards = [], Auction.complaints = []\<rparr>"

text \<open>
  Lines 110--115. Reading \<^verbatim>\<open>startDate\<close> of a missing auction period raises; a missing
  start date reaches \<^verbatim>\<open>calculate_business_date\<close>, which has no date to shift.
\<close>

definition auction_tenderPeriod :: "env \<Rightarrow> Auction \<Rightarrow> error + Period" where
  "auction_tenderPeriod env a =
     (if tenderPeriod a \<noteq> None \<and> period_endDate (tenderPeriod a) \<noteq> None
      then Inr (the (tenderPeriod a))
      else
        (case Auction.auctionPeriod a of
           None \<Rightarrow> Inl AttributeError
         | Some q \<Rightarrow>
             (case startDate q of
                None \<Rightarrow> Inl TypeError
              | Some s \<Rightarrow>
                  Inr \<lparr>startDate = None,
                       endDate = Some (calculate_business_date env s (- timedelta_days 1) a)\<rparr>)))"

text \<open>
  Lines 128--130. Of the dictionary \<open>data\<close> the validator reads the key
  \<^verbatim>\<open>auctionPeriod\<close> only: \<open>None\<close> stands for a dictionary without the key, \<open>Some v\<close> for
  one that holds \<open>v\<close> under it. The test \<^verbatim>\<open>'auctionPeriod' in data\<close> looks at the key, not
  at the value, so a key that holds \<^verbatim>\<open>None\<close> passes it and reading \<^verbatim>\<open>startDate\<close> raises.
  Python evaluates \<^verbatim>\<open>and\<close> from the left: a period with an end date is accepted before
  \<open>data\<close> is read.
\<close>

definition validate_tenderPeriod :: "Period option option \<Rightarrow> Period option \<Rightarrow> error + unit" where
  "validate_tenderPeriod data period =
     (if period \<noteq> None \<and> period_endDate period \<noteq> None then Inr ()
      else
        (case data of
           None \<Rightarrow> Inl (ValidationError ''This field is required.'')
         | Some None \<Rightarrow> Inl AttributeError
         | Some (Some q) \<Rightarrow>
             if startDate q \<noteq> None then Inr ()
             else Inl (ValidationError ''This field is required.'')))"

section \<open>Document\<close>

















section \<open>Sample values\<close>

text \<open>
  A sample environment for the closed examples below: Kyiv time, an auction round of
  six minutes per bid plus twenty-four minutes, a stand-still of three days, the business
  date of the specification, and a rendering that prints the instant in decimal followed
  by the zone.
\<close>

definition digit_char :: "nat \<Rightarrow> char" where
  "digit_char n = ''0123456789'' ! n"

fun decimal :: "nat \<Rightarrow> string" where
  "decimal n = (if n < 10 then [digit_char n] else decimal (n div 10) @ [digit_char (n mod 10)])"

declare decimal.simps [simp del]

definition sample_isoformat :: "datetime \<Rightarrow> string" where
  "sample_isoformat d =
     (if instant d < 0 then ''-'' else []) @ decimal (nat \<bar>instant d\<bar>) @ ''@'' @ tzinfo d"

definition minutes :: "int \<Rightarrow> timedelta" where
  "minutes n = n * 60000000"

text \<open>
  Modelled from the spec: \<^verbatim>\<open>calculate_business_date\<close> is a function of
  \<^verbatim>\<open>openprocurement.api.utils\<close>, which is not among the sources. By section 4.1 of the
  specification it shifts the anchor by the offset; the adjustment to business days is
  made only for a negative offset in the calendar-aware mode, which \<^verbatim>\<open>next_check\<close> does not
  ask for. The shift is Python's sum of a datetime and a timedelta, which keeps the zone of
  the datetime.
\<close>

definition shift_date :: "datetime \<Rightarrow> timedelta \<Rightarrow> Auction \<Rightarrow> datetime" where
  "shift_date date_obj timedelta_obj context =
     date_obj\<lparr>instant := instant date_obj + timedelta_obj\<rparr>"

definition sample_env :: "datetime \<Rightarrow> env" where
  "sample_env now =
     \<lparr>TZ = ''Europe/Kiev'',
      get_now = now,
      calc_auction_end_time =
        (\<lambda>bids start. start\<lparr>instant := instant start + bids * minutes 6 + minutes 24\<rparr>),
      calculate_business_date = shift_date,
      COMPLAINT_STAND_STILL_TIME = timedelta_days 3,
      block_complaint_status = [''claim'', ''answered'', ''pending''],
      isoformat = sample_isoformat,
      URLType_validate = (\<lambda>u. case u of None \<Rightarrow> False
                                | Some s \<Rightarrow> prefix ''http://'' s \<or> prefix ''https://'' s)\<rparr>"

text \<open>Instants are in days and hours after an arbitrary origin.\<close>

definition at :: "int \<Rightarrow> int \<Rightarrow> timezone \<Rightarrow> datetime" where
  "at day hour z = \<lparr>instant = timedelta_days day + minutes (60 * hour), tzinfo = z\<rparr>"

definition kiev :: timezone where
  "kiev = ''Europe/Kiev''"

definition claim_at :: "datetime \<Rightarrow> Complaint" where
  "claim_at d =
     \<lparr>Complaint.status = ''claim'', dateSubmitted = Some d, dateAnswered = None,
      relatedLot = None\<rparr>"

definition answered_at :: "datetime \<Rightarrow> datetime \<Rightarrow> Complaint" where
  "answered_at d e =
     \<lparr>Complaint.status = ''answered'', dateSubmitted = Some d, dateAnswered = Some e,
      relatedLot = None\<rparr>"

definition period_to :: "datetime \<Rightarrow> Period" where
  "period_to d = \<lparr>startDate = None, endDate = Some d\<rparr>"

definition period_from :: "datetime \<Rightarrow> Period" where
  "period_from d = \<lparr>startDate = Some d, endDate = None\<rparr>"

text \<open>Tendering until day 10, with a claim submitted on day 1 (stand-still until day 4).\<close>

definition tendering_early_claim :: Auction where
  "tendering_early_claim = (new_Auction None None)
     \<lparr>tenderPeriod := Some (period_to (at 10 0 ''UTC'')),
      Auction.complaints := [claim_at (at 1 0 kiev)]\<rparr>"

text \<open>
  Tendering until day 10, with a lot, an award and claims whose stand-still ends on day 12
  and on day 10.
\<close>

definition tendering_late_claim :: Auction where
  "tendering_late_claim = (new_Auction None None)
     \<lparr>tenderPeriod := Some (period_to (at 10 0 ''UTC'')),
      lots := [\<lparr>Lot.id = ''L1'', Lot.status = ''active'',
                Lot.auctionPeriod = Some (period_from (at 3 0 kiev)), Lot.numberOfBids = 2\<rparr>],
      awards := [\<lparr>lotID = Some ''L1'', Award.status = ''unsuccessful'',
                  complaintPeriod = Some (period_to (at 2 0 kiev)),
                  Award.complaints = [answered_at (at 6 0 kiev) (at 7 0 kiev)]\<rparr>],
      Auction.complaints := [claim_at (at 9 0 kiev)]\<rparr>"

text \<open>
  An auction without lots whose round starts on day 5 with two bids; an answered claim
  keeps its stand-still until day 9.
\<close>

definition running_auction :: Auction where
  "running_auction = (new_Auction (Some ''active.auction'') None)
     \<lparr>Auction.auctionPeriod := Some (period_from (at 5 0 ''UTC'')),
      Auction.numberOfBids := 2,
      Auction.complaints := [answered_at (at 1 0 kiev) (at 6 0 kiev)]\<rparr>"

text \<open>The same auction with a claim submitted on day 0 (stand-still until day 3).\<close>

definition running_auction_claim :: Auction where
  "running_auction_claim = running_auction\<lparr>Auction.complaints := [claim_at (at 0 0 kiev)]\<rparr>"

text \<open>
  Four lots: one finished, one cancelled, and two still to run, from day 6 and from day 5.
\<close>

definition sample_lots :: "Lot list" where
  "sample_lots =
     [\<lparr>Lot.id = ''L1'', Lot.status = ''active'',
       Lot.auctionPeriod = Some \<lparr>startDate = Some (at 3 0 kiev), endDate = Some (at 3 1 kiev)\<rparr>,
       Lot.numberOfBids = 2\<rparr>,
      \<lparr>Lot.id = ''L2'', Lot.status = ''cancelled'',
       Lot.auctionPeriod = Some (period_from (at 4 0 kiev)), Lot.numberOfBids = 0\<rparr>,
      \<lparr>Lot.id = ''L3'', Lot.status = ''active'',
       Lot.auctionPeriod = Some (period_from (at 6 0 kiev)), Lot.numberOfBids = 3\<rparr>,
      \<lparr>Lot.id = ''L4'', Lot.status = ''active'',
       Lot.auctionPeriod = Some (period_from (at 5 0 ''UTC'')), Lot.numberOfBids = 1\<rparr>]"

definition lots_auction :: Auction where
  "lots_auction = (new_Auction (Some ''active.auction'') None)
     \<lparr>lots := sample_lots, Auction.complaints := [answered_at (at 1 0 kiev) (at 6 0 kiev)]\<rparr>"

definition lots_auction_claim :: Auction where
  "lots_auction_claim = lots_auction\<lparr>Auction.complaints := [claim_at (at 0 0 kiev)]\<rparr>"

section \<open>The claims' own words for the lots of a running auction\<close>

text \<open>
  A lot takes part when it is active, its auction period has a start date and no end
  date. Its deadline is the start of its round while that lies ahead, then the end of the
  round while that lies ahead.
\<close>

definition open_lot :: "Lot \<Rightarrow> bool" where
  "open_lot lot =
     (Lot.status lot = ''active''
      \<and> (case Lot.auctionPeriod lot of
            None \<Rightarrow> False
          | Some q \<Rightarrow> startDate q \<noteq> None \<and> endDate q = None))"

definition lot_deadline :: "env \<Rightarrow> Lot \<Rightarrow> datetime list" where
  "lot_deadline env lot =
     (case Lot.auctionPeriod lot of
        None \<Rightarrow> []
      | Some q \<Rightarrow>
          (case startDate q of
             None \<Rightarrow> []
           | Some s \<Rightarrow>
               if instant (get_now env) < instant s then [s\<lparr>tzinfo := TZ env\<rparr>]
               else if instant (get_now env)
                         < instant (calc_auction_end_time env (Lot.numberOfBids lot) s)
               then [(calc_auction_end_time env (Lot.numberOfBids lot) s)\<lparr>tzinfo := TZ env\<rparr>]
               else []))"

definition lot_deadlines :: "env \<Rightarrow> Auction \<Rightarrow> datetime list" where
  "lot_deadlines env a = concat (map (lot_deadline env) (filter open_lot (lots a)))"

section \<open>The claims' own words for the stand-still of awards\<close>

text \<open>
  The complaint period end dates of the awards that have one, converted to \<^verbatim>\<open>TZ\<close>, in
  the order of the awards; and the candidate of one lot of an auction in qualification.
\<close>

definition stand_still_ends :: "env \<Rightarrow> Award list \<Rightarrow> datetime list" where
  "stand_still_ends env aw =
     concat (map (\<lambda>w. case complaintPeriod w of
                        None \<Rightarrow> []
                      | Some p \<Rightarrow>
                          (case endDate p of
                             None \<Rightarrow> []
                           | Some d \<Rightarrow> [d\<lparr>tzinfo := TZ env\<rparr>])) aw)"

definition latest :: "datetime list \<Rightarrow> datetime" where
  "latest ds = max_from (hd ds) (tl ds)"




section \<open>Sample awards\<close>

definition award :: "string option \<Rightarrow> string \<Rightarrow> Period option \<Rightarrow> Award" where
  "award lot st p = \<lparr>lotID = lot, Award.status = st, complaintPeriod = p, Award.complaints = []\<rparr>"

text \<open>
  Two unsuccessful awards with complaint periods until day 8 and day 6; the same with a
  last award that has no complaint period.
\<close>

definition awarded_auction :: Auction where
  "awarded_auction = (new_Auction (Some ''active.awarded'') None)
     \<lparr>awards := [award None ''unsuccessful'' (Some (period_to (at 8 0 ''UTC''))),
                 award None ''unsuccessful'' (Some (period_to (at 6 0 kiev)))]\<rparr>"

definition awarded_no_period :: Auction where
  "awarded_no_period = (new_Auction (Some ''active.awarded'') None)
     \<lparr>awards := [award None ''unsuccessful'' (Some (period_to (at 8 0 ''UTC''))),
                 award None ''unsuccessful'' None]\<rparr>"

definition one_lot :: "Lot list" where
  "one_lot = [\<lparr>Lot.id = ''L1'', Lot.status = ''active'', Lot.auctionPeriod = None,
               Lot.numberOfBids = 2\<rparr>]"

definition lots_awarded_auction :: Auction where
  "lots_awarded_auction = (new_Auction (Some ''active.qualification'') None)
     \<lparr>lots := one_lot,
      awards := [award (Some ''L1'') ''unsuccessful'' (Some (period_to (at 8 0 ''UTC''))),
                 award (Some ''L2'') ''pending'' (Some (period_to (at 9 0 kiev))),
                 award (Some ''L1'') ''unsuccessful'' (Some (period_to (at 6 0 kiev)))]\<rparr>"


section \<open>Sample complaints\<close>

text \<open>An auction in qualification whose only complaint is a claim submitted in UTC.\<close>

definition qualification_utc_claim :: Auction where
  "qualification_utc_claim = (new_Auction (Some ''active.qualification'') None)
     \<lparr>Auction.complaints := [claim_at (at 1 0 ''UTC'')]\<rparr>"


section \<open>Sample documents and periods\<close>





text \<open>An auction that has only an auction period, starting on day 5.\<close>

definition auction_period_only :: Auction where
  "auction_period_only = (new_Auction None None)
     \<lparr>Auction.auctionPeriod := Some (period_from (at 5 0 kiev))\<rparr>"



section \<open>Facts about the helpers\<close>

lemma instant_astimezone: "instant (astimezone d z) = instant d"
  by (simp add: astimezone_def)

lemma tzinfo_astimezone: "tzinfo (astimezone d z) = z"
  by (simp add: astimezone_def)

lemma min_from_append: "min_from m (xs @ ys) = min_from (min_from m xs) ys"
  by (induction xs arbitrary: m) simp_all

lemma min_from_mem: "min_from m xs \<in> set (m # xs)"
  by (induction xs arbitrary: m) auto

lemma min_from_le_start: "instant (min_from m xs) \<le> instant m"
proof (induction xs arbitrary: m)
  case Nil
  show ?case by simp
next
  case (Cons y ys)
  from Cons [of y] Cons [of m] show ?case
    by (cases "instant y < instant m") simp_all
qed

lemma min_from_le: "x \<in> set xs \<Longrightarrow> instant (min_from m xs) \<le> instant x"
proof (induction xs arbitrary: m)
  case Nil
  then show ?case by simp
next
  case (Cons y ys)
  let ?m' = "if instant y < instant m then y else m"
  have start: "instant (min_from ?m' ys) \<le> instant ?m'"
    by (rule min_from_le_start)
  show ?case
  proof (cases "x = y")
    case True
    with start show ?thesis by (simp split: if_splits)
  next
    case False
    with Cons.prems have "x \<in> set ys" by simp
    from Cons.IH [OF this] show ?thesis by simp
  qed
qed

lemma min_from_first: "\<forall>x \<in> set xs. instant m \<le> instant x \<Longrightarrow> min_from m xs = m"
  by (induction xs) auto

lemma max_from_mem: "max_from m xs \<in> set (m # xs)"
  by (induction xs arbitrary: m) auto



text \<open>The decimal printer of the sample rendering, as rules the simplifier can run.\<close>

lemma decimal_digit: "n < 10 \<Longrightarrow> decimal n = [digit_char n]"
  by (simp add: decimal.simps)

lemma decimal_more: "\<not> n < 10 \<Longrightarrow> decimal n = decimal (n div 10) @ [digit_char (n mod 10)]"
  by (subst decimal.simps) simp

lemmas sample_defs =
  sample_env_def shift_date_def sample_isoformat_def decimal_digit decimal_more digit_char_def at_def
  timedelta_days_def minutes_def kiev_def claim_at_def answered_at_def period_to_def
  period_from_def new_Auction_def astimezone_def

lemmas next_check_defs =
  next_check_def checks_def branch_checks_def complaint_checks_def complaint_check_def
  all_complaints_def startswith_def period_endDate_def period_startDate_def
  auction_round_checks_def lot_auction_checks_def blocking_def awarded_checks_def
  last_award_status_def lot_awarded_checks_def lot_awards_def pending_complaints_def
  pending_awards_complaints_def

section \<open>The tendering deadline\<close>

lemma branch_checks_tendering:
  assumes "Auction.status a = ''active.tendering''"
    and "tenderPeriod a = Some p" and "endDate p = Some d"
  shows "branch_checks env a = Inr [astimezone d (TZ env)]"
  using assms by (simp add: branch_checks_def period_endDate_def)

text \<open>
  Claim C1, as the code has it. An auction in \<^verbatim>\<open>active.tendering\<close> whose tender period has
  an end date collects that end date, converted to \<^verbatim>\<open>TZ\<close>, and after it the stand-still
  deadlines of its claims and answered claims, because \<^verbatim>\<open>active.tendering\<close> starts with
  \<^verbatim>\<open>active\<close>. The result is the earliest of these. It is the end of the tender period
  whenever no stand-still deadline is strictly earlier; lots, awards and every other
  field have no influence.
\<close>

theorem next_check_tendering:
  assumes "Auction.status a = ''active.tendering''"
    and "tenderPeriod a = Some p" and "endDate p = Some d"
  shows "next_check env a
           = Inr (Some (isoformat env
                (min_from (astimezone d (TZ env)) (complaint_checks env a))))
         \<and> ((\<forall>x \<in> set (complaint_checks env a). instant d \<le> instant x)
              \<longrightarrow> next_check env a = Inr (Some (isoformat env (astimezone d (TZ env)))))"
proof -
  have result: "next_check env a
      = Inr (Some (isoformat env (min_from (astimezone d (TZ env)) (complaint_checks env a))))"
    by (simp add: next_check_def checks_def branch_checks_tendering [OF assms])
  have "min_from (astimezone d (TZ env)) (complaint_checks env a) = astimezone d (TZ env)"
    if "\<forall>x \<in> set (complaint_checks env a). instant d \<le> instant x"
    using that by (intro min_from_first) (simp add: instant_astimezone)
  with result show ?thesis by simp
qed

theorem next_check_tendering_witness:
  "Auction.status tendering_late_claim = ''active.tendering''
   \<and> period_endDate (tenderPeriod tendering_late_claim) = Some (at 10 0 ''UTC'')
   \<and> complaint_checks (sample_env (at 2 0 kiev)) tendering_late_claim
       = [at 12 0 kiev, at 10 0 kiev]
   \<and> next_check (sample_env (at 2 0 kiev)) tendering_late_claim
       = Inr (Some (sample_isoformat (at 10 0 kiev)))"
proof -
  have st: "Auction.status tendering_late_claim = ''active.tendering''"
    by (simp add: tendering_late_claim_def new_Auction_def)
  have tp: "tenderPeriod tendering_late_claim = Some (period_to (at 10 0 ''UTC''))"
    by (simp add: tendering_late_claim_def new_Auction_def)
  have en: "endDate (period_to (at 10 0 ''UTC'')) = Some (at 10 0 ''UTC'')"
    by (simp add: period_to_def)
  have cc: "complaint_checks (sample_env (at 2 0 kiev)) tendering_late_claim
      = [at 12 0 kiev, at 10 0 kiev]"
    by (simp add: tendering_late_claim_def complaint_checks_def complaint_check_def
        all_complaints_def startswith_def sample_env_def shift_date_def at_def timedelta_days_def
        minutes_def kiev_def claim_at_def answered_at_def new_Auction_def)
  have later: "\<forall>x \<in> set (complaint_checks (sample_env (at 2 0 kiev)) tendering_late_claim).
          instant (at 10 0 ''UTC'') \<le> instant x"
    unfolding cc by (simp add: at_def timedelta_days_def minutes_def)
  note result = mp [OF conjunct2 [OF next_check_tendering [OF st tp en]] later]
  have "isoformat (sample_env (at 2 0 kiev))
          (astimezone (at 10 0 ''UTC'') (TZ (sample_env (at 2 0 kiev))))
        = sample_isoformat (at 10 0 kiev)"
    by (simp add: sample_env_def shift_date_def astimezone_def at_def kiev_def)
  with result have "next_check (sample_env (at 2 0 kiev)) tendering_late_claim
      = Inr (Some (sample_isoformat (at 10 0 kiev)))"
    by simp
  with st tp en cc show ?thesis by (simp add: period_endDate_def)
qed

theorem next_check_tendering_counterexample:
  "Auction.status tendering_early_claim = ''active.tendering''
   \<and> period_endDate (tenderPeriod tendering_early_claim) = Some (at 10 0 ''UTC'')
   \<and> next_check (sample_env (at 2 0 kiev)) tendering_early_claim
       = Inr (Some (isoformat (sample_env (at 2 0 kiev)) (at 4 0 kiev)))
   \<and> next_check (sample_env (at 2 0 kiev)) tendering_early_claim
       \<noteq> Inr (Some (isoformat (sample_env (at 2 0 kiev))
              (astimezone (at 10 0 ''UTC'') (TZ (sample_env (at 2 0 kiev))))))"
  by (simp add: tendering_early_claim_def next_check_defs sample_defs)

section \<open>The deadlines of a running auction\<close>

lemma min_from_ignores_later:
  assumes "\<forall>x \<in> set ys. instant (min_from m xs) \<le> instant x"
  shows "min_from m (xs @ ys) = min_from m xs"
  using assms by (simp add: min_from_append min_from_first)

lemma next_check_first_candidate:
  assumes "checks env a = Inr (c # cs)" and "\<forall>x \<in> set cs. instant c \<le> instant x"
  shows "next_check env a = Inr (Some (isoformat env c))"
  using assms by (simp add: next_check_def min_from_first)

lemma branch_checks_auction:
  assumes "lots a = []" and "Auction.status a = ''active.auction''"
    and "Auction.auctionPeriod a = Some q" and "startDate q = Some s" and "endDate q = None"
  shows "branch_checks env a = Inr (auction_round_checks env (Auction.numberOfBids a) s)"
  using assms by (simp add: branch_checks_def period_endDate_def period_startDate_def)

text \<open>
  Claim C5, as the code has it. For an auction without lots in \<^verbatim>\<open>active.auction\<close> whose
  auction period has a start date and no end date: while now is before the start, the
  start (in \<^verbatim>\<open>TZ\<close>) is the candidate of this branch; otherwise, while now is before the end
  of the round that \<^verbatim>\<open>calc_auction_end_time\<close> gives for the number of bids, that end (in
  \<^verbatim>\<open>TZ\<close>) is. The stand-still deadlines of claims and answered claims are collected after
  it, and the candidate is the result whenever none of them is strictly earlier.
\<close>

theorem next_check_auction:
  assumes "lots a = []" and "Auction.status a = ''active.auction''"
    and "Auction.auctionPeriod a = Some q" and "startDate q = Some s" and "endDate q = None"
  shows "(instant (get_now env) < instant s \<longrightarrow>
            checks env a = Inr (astimezone s (TZ env) # complaint_checks env a)
            \<and> ((\<forall>x \<in> set (complaint_checks env a). instant s \<le> instant x) \<longrightarrow>
                 next_check env a = Inr (Some (isoformat env (astimezone s (TZ env))))))
         \<and> (\<not> instant (get_now env) < instant s
            \<and> instant (get_now env)
                < instant (calc_auction_end_time env (Auction.numberOfBids a) s) \<longrightarrow>
            checks env a
              = Inr (astimezone (calc_auction_end_time env (Auction.numberOfBids a) s) (TZ env)
                     # complaint_checks env a)
            \<and> ((\<forall>x \<in> set (complaint_checks env a).
                    instant (calc_auction_end_time env (Auction.numberOfBids a) s) \<le> instant x)
                 \<longrightarrow> next_check env a
                      = Inr (Some (isoformat env
                          (astimezone (calc_auction_end_time env (Auction.numberOfBids a) s)
                             (TZ env))))))"
proof (intro conjI impI)
  assume before: "instant (get_now env) < instant s"
  with branch_checks_auction [OF assms, of env]
  show c: "checks env a = Inr (astimezone s (TZ env) # complaint_checks env a)"
    by (simp add: checks_def auction_round_checks_def)
  assume "\<forall>x \<in> set (complaint_checks env a). instant s \<le> instant x"
  then show "next_check env a = Inr (Some (isoformat env (astimezone s (TZ env))))"
    by (intro next_check_first_candidate [OF c]) (simp add: instant_astimezone)
next
  let ?e = "calc_auction_end_time env (Auction.numberOfBids a) s"
  assume running: "\<not> instant (get_now env) < instant s \<and> instant (get_now env) < instant ?e"
  with branch_checks_auction [OF assms, of env]
  show c: "checks env a = Inr (astimezone ?e (TZ env) # complaint_checks env a)"
    by (simp add: checks_def auction_round_checks_def instant_astimezone)
  assume "\<forall>x \<in> set (complaint_checks env a). instant ?e \<le> instant x"
  then show "next_check env a = Inr (Some (isoformat env (astimezone ?e (TZ env))))"
    by (intro next_check_first_candidate [OF c]) (simp add: instant_astimezone)
qed

theorem next_check_auction_witness:
  "lots running_auction = [] \<and> Auction.status running_auction = ''active.auction''
   \<and> Auction.auctionPeriod running_auction = Some (period_from (at 5 0 ''UTC''))
   \<and> next_check (sample_env (at 4 0 kiev)) running_auction
       = Inr (Some (sample_isoformat (at 5 0 kiev)))
   \<and> next_check (sample_env (at 5 0 kiev)) running_auction
       = Inr (Some (sample_isoformat \<lparr>instant = timedelta_days 5 + minutes 36, tzinfo = kiev\<rparr>))"
proof -
  let ?s = "at 5 0 ''UTC''"
  have lo: "lots running_auction = []"
    and st: "Auction.status running_auction = ''active.auction''"
    and ap: "Auction.auctionPeriod running_auction = Some (period_from ?s)"
    by (simp_all add: running_auction_def new_Auction_def)
  have sd: "startDate (period_from ?s) = Some ?s" and ed: "endDate (period_from ?s) = None"
    by (simp_all add: period_from_def)
  note cases = next_check_auction [OF lo st ap sd ed]
  have cc: "complaint_checks (sample_env now) running_auction = [at 9 0 kiev]" for now
    by (simp add: running_auction_def complaint_checks_def complaint_check_def
        all_complaints_def startswith_def sample_defs)
  have before: "instant (get_now (sample_env (at 4 0 kiev))) < instant ?s"
    by (simp add: sample_defs)
  have later: "\<forall>x \<in> set (complaint_checks (sample_env (at 4 0 kiev)) running_auction).
      instant ?s \<le> instant x"
    unfolding cc by (simp add: sample_defs)
  from mp [OF conjunct2 [OF mp [OF conjunct1 [OF cases] before]] later]
  have first: "next_check (sample_env (at 4 0 kiev)) running_auction
      = Inr (Some (sample_isoformat (at 5 0 kiev)))"
    by (simp add: sample_env_def shift_date_def astimezone_def at_def kiev_def)
  let ?env = "sample_env (at 5 0 kiev)"
  have running: "\<not> instant (get_now ?env) < instant ?s
      \<and> instant (get_now ?env)
          < instant (calc_auction_end_time ?env (Auction.numberOfBids running_auction) ?s)"
    by (simp add: running_auction_def sample_defs)
  have later': "\<forall>x \<in> set (complaint_checks ?env running_auction).
      instant (calc_auction_end_time ?env (Auction.numberOfBids running_auction) ?s)
        \<le> instant x"
    unfolding cc by (simp add: running_auction_def sample_defs)
  from mp [OF conjunct2 [OF mp [OF conjunct2 [OF cases] running]] later']
  have second: "next_check ?env running_auction
      = Inr (Some (sample_isoformat
          \<lparr>instant = timedelta_days 5 + minutes 36, tzinfo = kiev\<rparr>))"
    by (simp add: running_auction_def sample_env_def shift_date_def astimezone_def at_def kiev_def
        new_Auction_def minutes_def timedelta_days_def)
  from lo st ap first second show ?thesis by simp
qed

theorem next_check_auction_counterexample:
  "lots running_auction_claim = []
   \<and> Auction.status running_auction_claim = ''active.auction''
   \<and> Auction.auctionPeriod running_auction_claim
       = Some \<lparr>startDate = Some (at 5 0 ''UTC''), endDate = None\<rparr>
   \<and> instant (get_now (sample_env (at 4 0 kiev))) < instant (at 5 0 ''UTC'')
   \<and> next_check (sample_env (at 4 0 kiev)) running_auction_claim
       = Inr (Some (isoformat (sample_env (at 4 0 kiev)) (at 3 0 kiev)))
   \<and> next_check (sample_env (at 4 0 kiev)) running_auction_claim
       \<noteq> Inr (Some (isoformat (sample_env (at 4 0 kiev)) (at 5 0 ''UTC'')))
   \<and> next_check (sample_env (at 4 0 kiev)) running_auction_claim
       \<noteq> Inr (Some (isoformat (sample_env (at 4 0 kiev))
              (astimezone (at 5 0 ''UTC'') (TZ (sample_env (at 4 0 kiev))))))"
  by (simp add: running_auction_claim_def running_auction_def next_check_defs sample_defs)

section \<open>The deadlines of the lots of a running auction\<close>

lemma lot_auction_checks_open:
  "lot_auction_checks env lot = (if open_lot lot then lot_deadline env lot else [])"
  by (auto simp: lot_auction_checks_def open_lot_def lot_deadline_def period_startDate_def
      period_endDate_def auction_round_checks_def astimezone_def split: option.splits)

lemma lots_auction_checks_deadlines:
  "lots_auction_checks env ls = concat (map (lot_deadline env) (filter open_lot ls))"
  by (induction ls) (simp_all add: lot_auction_checks_open)

lemma branch_checks_lots_auction:
  assumes "lots a \<noteq> []" and "Auction.status a = ''active.auction''"
  shows "branch_checks env a = Inr (lot_deadlines env a)"
  using assms by (simp add: branch_checks_def lots_auction_checks_deadlines lot_deadlines_def)

text \<open>
  Claim C6, as the code has it. For an auction with lots in \<^verbatim>\<open>active.auction\<close>, the
  candidates of this branch are the deadlines of exactly the lots that are active, have
  an auction start date and no auction end date, in the order of the lots; every other
  lot contributes nothing. The deadline of such a lot is the start of its round, in
  \<^verbatim>\<open>TZ\<close>, if now is before it, else the end of its round, in \<^verbatim>\<open>TZ\<close>, if now is before
  that, as \<open>lot_deadline\<close> spells out. The stand-still deadlines of claims and answered
  claims are collected after them. When the lots give a deadline and no stand-still
  deadline is strictly earlier than the least of them, the result is the least deadline
  of the lots.
\<close>

theorem next_check_lots_auction:
  assumes "lots a \<noteq> []" and "Auction.status a = ''active.auction''"
  shows "checks env a = Inr (lot_deadlines env a @ complaint_checks env a)
         \<and> (\<forall>lot \<in> set (lots a). \<not> open_lot lot \<longrightarrow> lot_auction_checks env lot = [])
         \<and> (\<forall>d ds. lot_deadlines env a = d # ds
                \<and> (\<forall>x \<in> set (complaint_checks env a). instant (min_from d ds) \<le> instant x)
              \<longrightarrow> next_check env a = Inr (Some (isoformat env (min_from d ds)))
                  \<and> min_from d ds \<in> set (lot_deadlines env a)
                  \<and> (\<forall>y \<in> set (lot_deadlines env a). instant (min_from d ds) \<le> instant y))"
proof (intro conjI allI impI ballI)
  show c: "checks env a = Inr (lot_deadlines env a @ complaint_checks env a)"
    by (simp add: checks_def branch_checks_lots_auction [OF assms])
  fix d ds
  assume h: "lot_deadlines env a = d # ds
     \<and> (\<forall>x \<in> set (complaint_checks env a). instant (min_from d ds) \<le> instant x)"
  then have "min_from d (ds @ complaint_checks env a) = min_from d ds"
    by (intro min_from_ignores_later) simp
  with c h show "next_check env a = Inr (Some (isoformat env (min_from d ds)))"
    by (simp add: next_check_def)
  from h min_from_mem [of d ds] show "min_from d ds \<in> set (lot_deadlines env a)"
    by simp
  fix y
  assume "y \<in> set (lot_deadlines env a)"
  with h have "y = d \<or> y \<in> set ds" by simp
  then show "instant (min_from d ds) \<le> instant y"
    using min_from_le_start [of d ds] min_from_le [of y ds d] by auto
next
  fix lot
  assume "\<not> open_lot lot"
  then show "lot_auction_checks env lot = []"
    by (simp add: lot_auction_checks_open)
qed

theorem next_check_lots_auction_witness:
  "lots lots_auction \<noteq> [] \<and> Auction.status lots_auction = ''active.auction''
   \<and> map open_lot (lots lots_auction) = [False, False, True, True]
   \<and> lot_deadlines (sample_env (at 5 0 kiev)) lots_auction
       = [at 6 0 kiev, \<lparr>instant = timedelta_days 5 + minutes 30, tzinfo = kiev\<rparr>]
   \<and> next_check (sample_env (at 5 0 kiev)) lots_auction
       = Inr (Some (sample_isoformat
           \<lparr>instant = timedelta_days 5 + minutes 30, tzinfo = kiev\<rparr>))"
proof -
  let ?env = "sample_env (at 5 0 kiev)"
  let ?end = "\<lparr>instant = timedelta_days 5 + minutes 30, tzinfo = kiev\<rparr>"
  have lo: "lots lots_auction \<noteq> []" and st: "Auction.status lots_auction = ''active.auction''"
    by (simp_all add: lots_auction_def sample_lots_def new_Auction_def)
  have op: "map open_lot (lots lots_auction) = [False, False, True, True]"
    by (simp add: lots_auction_def sample_lots_def open_lot_def period_from_def)
  have ld: "lot_deadlines ?env lots_auction = [at 6 0 kiev, ?end]"
    by (simp add: lots_auction_def sample_lots_def lot_deadlines_def lot_deadline_def
        open_lot_def sample_defs)
  have cc: "complaint_checks ?env lots_auction = [at 9 0 kiev]"
    by (simp add: lots_auction_def complaint_checks_def complaint_check_def
        all_complaints_def startswith_def sample_defs)
  have mn: "min_from (at 6 0 kiev) [?end] = ?end"
    by (simp add: sample_defs)
  have "lot_deadlines ?env lots_auction = at 6 0 kiev # [?end]
     \<and> (\<forall>x \<in> set (complaint_checks ?env lots_auction).
           instant (min_from (at 6 0 kiev) [?end]) \<le> instant x)"
    unfolding cc mn using ld by (simp add: sample_defs)
  from conjunct1 [OF mp [OF spec [OF spec
      [OF conjunct2 [OF conjunct2 [OF next_check_lots_auction [OF lo st]]]]] this]]
  have "next_check ?env lots_auction = Inr (Some (sample_isoformat ?end))"
    unfolding mn by (simp add: sample_env_def)
  with lo st op ld show ?thesis by simp
qed

theorem next_check_lots_auction_counterexample:
  "lots lots_auction_claim \<noteq> [] \<and> Auction.status lots_auction_claim = ''active.auction''
   \<and> lot_deadlines (sample_env (at 2 0 kiev)) lots_auction_claim
       = [at 6 0 kiev, at 5 0 kiev]
   \<and> next_check (sample_env (at 2 0 kiev)) lots_auction_claim
       = Inr (Some (isoformat (sample_env (at 2 0 kiev)) (at 3 0 kiev)))
   \<and> next_check (sample_env (at 2 0 kiev)) lots_auction_claim
       \<noteq> Inr (Some (isoformat (sample_env (at 2 0 kiev)) (at 5 0 kiev)))"
  by (simp add: lots_auction_claim_def lots_auction_def sample_lots_def lot_deadlines_def
      lot_deadline_def open_lot_def next_check_defs sample_defs)

section \<open>The stand-still of awards\<close>

lemma standStillEnds_total:
  assumes "\<forall>w \<in> set aw. complaintPeriod w \<noteq> None"
  shows "standStillEnds env aw = Inr (stand_still_ends env aw)"
  using assms
  by (induction aw) (auto simp: stand_still_ends_def astimezone_def split: option.splits)

lemma standStillEnds_Inl: "standStillEnds env aw = Inl e \<Longrightarrow> e = AttributeError"
  by (induction aw) (auto split: option.splits sum.splits)

lemma standStillEnds_Inr:
  "standStillEnds env aw = Inr ds \<Longrightarrow> w \<in> set aw \<Longrightarrow> complaintPeriod w \<noteq> None"
  by (induction aw arbitrary: ds) (auto split: option.splits sum.splits)

lemma standStillEnds_raises:
  assumes "\<exists>w \<in> set aw. complaintPeriod w = None"
  shows "standStillEnds env aw = Inl AttributeError"
proof (cases "standStillEnds env aw")
  case (Inl e)
  with standStillEnds_Inl [OF Inl] show ?thesis by simp
next
  case (Inr ds)
  with assms standStillEnds_Inr [OF Inr] show ?thesis by blast
qed

lemma standStillEnds_TZ:
  "standStillEnds env aw = Inr ds \<Longrightarrow> x \<in> set ds \<Longrightarrow> tzinfo x = TZ env"
  by (induction aw arbitrary: ds)
    (auto simp: tzinfo_astimezone split: option.splits sum.splits)



text \<open>
  What lines 155--171 do when every award has a complaint period: the latest of the
  collected end dates is the one candidate exactly when there is an end date and the last
  award is unsuccessful. When an award has no complaint period they raise.
\<close>

lemma branch_checks_awarded:
  assumes "lots a = []" and "Auction.status a = ''active.awarded''"
    and "\<not> list_ex (blocking env) (Auction.complaints a)"
    and "\<not> list_ex (\<lambda>w. list_ex (blocking env) (Award.complaints w)) (awards a)"
  shows "branch_checks env a =
           (if \<exists>w \<in> set (awards a). complaintPeriod w = None then Inl AttributeError
            else Inr (if stand_still_ends env (awards a) \<noteq> []
                         \<and> last_award_status (awards a) = ''unsuccessful''
                      then [latest (stand_still_ends env (awards a))] else []))"
proof (cases "\<exists>w \<in> set (awards a). complaintPeriod w = None")
  case True
  with assms show ?thesis
    by (simp add: branch_checks_def awarded_checks_def standStillEnds_raises)
next
  case False
  then have "standStillEnds env (awards a) = Inr (stand_still_ends env (awards a))"
    by (intro standStillEnds_total) simp
  with assms False show ?thesis
    by (simp add: branch_checks_def awarded_checks_def latest_def split: list.splits)
qed





lemma next_check_awarded_latest:
  "next_check (sample_env (at 2 0 kiev)) awarded_auction
     = Inr (Some (sample_isoformat (at 8 0 kiev)))
   \<and> next_check (sample_env (at 2 0 kiev)) lots_awarded_auction
     = Inr (Some (sample_isoformat (at 8 0 kiev)))"
  by (simp add: awarded_auction_def lots_awarded_auction_def one_lot_def award_def
      next_check_defs sample_defs)

text \<open>
  Claim C2 says that the end dates are collected over the awards that have one. An award
  without a complaint period has none, yet line 166 reads \<^verbatim>\<open>a.complaintPeriod.endDate\<close>
  of every award: the first award below has a complaint period until day 8, the last one
  has no complaint period, both are unsuccessful, and instead of the deadline of day 8
  the evaluation raises.
\<close>

theorem next_check_awarded_no_period:
  "lots awarded_no_period = [] \<and> Auction.status awarded_no_period = ''active.awarded''
   \<and> Auction.complaints awarded_no_period = []
   \<and> concat (map Award.complaints (awards awarded_no_period)) = []
   \<and> map (\<lambda>w. period_endDate (complaintPeriod w)) (awards awarded_no_period)
       = [Some (at 8 0 ''UTC''), None]
   \<and> Award.status (last (awards awarded_no_period)) = ''unsuccessful''
   \<and> next_check (sample_env (at 2 0 kiev)) awarded_no_period = Inl AttributeError"
  by (simp add: awarded_no_period_def award_def next_check_defs sample_defs)





section \<open>The result: the earliest candidate\<close>

lemma auction_round_checks_TZ:
  "x \<in> set (auction_round_checks env n s) \<Longrightarrow> tzinfo x = TZ env"
  by (auto simp: auction_round_checks_def tzinfo_astimezone split: if_splits)

lemma lots_auction_checks_TZ:
  "x \<in> set (lots_auction_checks env ls) \<Longrightarrow> tzinfo x = TZ env"
  by (induction ls)
    (auto simp: lot_auction_checks_def auction_round_checks_TZ split: if_splits)

lemma awarded_checks_TZ:
  assumes "awarded_checks env aw = Inr cs" and "x \<in> set cs"
  shows "tzinfo x = TZ env"
proof -
  from assms obtain d ds where ends: "standStillEnds env aw = Inr (d # ds)"
    and x: "x = max_from d ds"
    by (auto simp: awarded_checks_def split: sum.splits list.splits if_splits)
  from max_from_mem [of d ds] x have "x \<in> set (d # ds)" by simp
  with ends show ?thesis by (rule standStillEnds_TZ)
qed

lemma lot_awarded_checks_TZ:
  assumes "lot_awarded_checks env a lot = Inr cs" and "x \<in> set cs"
  shows "tzinfo x = TZ env"
proof -
  from assms obtain d ds where ends: "standStillEnds env (lot_awards a lot) = Inr (d # ds)"
    and x: "x = max_from d ds"
    by (auto simp: lot_awarded_checks_def split: sum.splits list.splits if_splits)
  from max_from_mem [of d ds] x have "x \<in> set (d # ds)" by simp
  with ends show ?thesis by (rule standStillEnds_TZ)
qed

lemma lots_awarded_checks_TZ:
  "lots_awarded_checks env a ls = Inr cs \<Longrightarrow> x \<in> set cs \<Longrightarrow> tzinfo x = TZ env"
  by (induction ls arbitrary: cs)
    (auto split: sum.splits dest: lot_awarded_checks_TZ)

lemma branch_checks_TZ:
  assumes "branch_checks env a = Inr bs" and "x \<in> set bs"
  shows "tzinfo x = TZ env"
  using assms
  by (auto simp: branch_checks_def tzinfo_astimezone split: if_splits
      dest: auction_round_checks_TZ lots_auction_checks_TZ awarded_checks_TZ
        lots_awarded_checks_TZ)

text \<open>
  What line 210 returns. When no candidate was collected the result is nothing; otherwise
  it is the rendering of a candidate with the least instant. The candidates of the
  branches of lines 140--196, which come from periods, are all in \<^verbatim>\<open>TZ\<close>; the result is
  in \<^verbatim>\<open>TZ\<close> when the stand-still deadlines of lines 197--209 are.
\<close>

lemma next_check_minimum:
  "(checks env a = Inr [] \<longrightarrow> next_check env a = Inr None)
   \<and> (\<forall>c cs. checks env a = Inr (c # cs) \<longrightarrow>
          next_check env a = Inr (Some (isoformat env (min_from c cs)))
          \<and> min_from c cs \<in> set (c # cs)
          \<and> (\<forall>x \<in> set (c # cs). instant (min_from c cs) \<le> instant x)
          \<and> ((\<forall>x \<in> set (complaint_checks env a). tzinfo x = TZ env)
               \<longrightarrow> tzinfo (min_from c cs) = TZ env))
   \<and> (\<forall>bs. branch_checks env a = Inr bs \<longrightarrow> (\<forall>x \<in> set bs. tzinfo x = TZ env))"
proof (intro conjI allI impI ballI)
  assume "checks env a = Inr []"
  then show "next_check env a = Inr None" by (simp add: next_check_def)
next
  fix c cs
  assume c: "checks env a = Inr (c # cs)"
  then show "next_check env a = Inr (Some (isoformat env (min_from c cs)))"
    by (simp add: next_check_def)
  show mem: "min_from c cs \<in> set (c # cs)" by (rule min_from_mem)
  {
    fix x
    assume "x \<in> set (c # cs)"
    then show "instant (min_from c cs) \<le> instant x"
      using min_from_le_start [of c cs] min_from_le [of x cs c] by auto
  }
  assume cc: "\<forall>x \<in> set (complaint_checks env a). tzinfo x = TZ env"
  from c obtain bs where bs: "branch_checks env a = Inr bs"
    and all: "c # cs = bs @ complaint_checks env a"
    by (auto simp: checks_def split: sum.splits)
  from mem all have "min_from c cs \<in> set bs \<or> min_from c cs \<in> set (complaint_checks env a)"
    by (metis Un_iff set_append)
  with cc branch_checks_TZ [OF bs] show "tzinfo (min_from c cs) = TZ env" by blast
next
  fix bs x
  assume "branch_checks env a = Inr bs" and "x \<in> set bs"
  then show "tzinfo x = TZ env" by (rule branch_checks_TZ)
qed

lemma next_check_minimum_sample:
  "checks (sample_env (at 2 0 kiev)) tendering_late_claim
     = Inr [at 10 0 kiev, at 12 0 kiev, at 10 0 kiev]
   \<and> next_check (sample_env (at 2 0 kiev)) tendering_late_claim
     = Inr (Some (sample_isoformat (at 10 0 kiev)))
   \<and> checks (sample_env (at 2 0 kiev)) tendering_early_claim = Inr [at 10 0 kiev, at 4 0 kiev]
   \<and> next_check (sample_env (at 2 0 kiev)) tendering_early_claim
     = Inr (Some (sample_isoformat (at 4 0 kiev)))
   \<and> checks (sample_env (at 2 0 kiev)) (new_Auction None None) = Inr []
   \<and> next_check (sample_env (at 2 0 kiev)) (new_Auction None None) = Inr None"
proof -
  let ?env = "sample_env (at 2 0 kiev)"
  have late: "checks ?env tendering_late_claim
      = Inr (at 10 0 kiev # [at 12 0 kiev, at 10 0 kiev])"
    by (simp add: tendering_late_claim_def checks_def branch_checks_def
        complaint_checks_def complaint_check_def all_complaints_def startswith_def
        period_endDate_def sample_defs)
  have early: "checks ?env tendering_early_claim = Inr (at 10 0 kiev # [at 4 0 kiev])"
    by (simp add: tendering_early_claim_def checks_def branch_checks_def
        complaint_checks_def complaint_check_def all_complaints_def startswith_def
        period_endDate_def sample_defs)
  have none: "checks ?env (new_Auction None None) = Inr []"
    by (simp add: checks_def branch_checks_def complaint_checks_def all_complaints_def
        period_endDate_def new_Auction_def)
  note parts = next_check_minimum [of ?env]
  from mp [OF spec [OF spec [OF conjunct1 [OF conjunct2 [OF parts]]]] late]
  have r1: "next_check ?env tendering_late_claim
      = Inr (Some (sample_isoformat (at 10 0 kiev)))"
    by (simp add: sample_defs)
  from mp [OF spec [OF spec [OF conjunct1 [OF conjunct2 [OF parts]]]] early]
  have r2: "next_check ?env tendering_early_claim
      = Inr (Some (sample_isoformat (at 4 0 kiev)))"
    by (simp add: sample_defs)
  from mp [OF conjunct1 [OF parts] none]
  have r3: "next_check ?env (new_Auction None None) = Inr None" .
  from late early none r1 r2 r3 show ?thesis by simp
qed

text \<open>
  Claim C4 says that every returned timestamp is in \<^verbatim>\<open>TZ\<close>. Lines 141--190 convert each
  candidate with \<^verbatim>\<open>astimezone(TZ)\<close>; lines 201--209 append what \<^verbatim>\<open>calculate_business_date\<close>
  returns without converting it, and line 210 renders the minimum as it is. With the
  business date of the specification, the claim below, submitted in UTC on day 1, gives a
  result on day 4 in UTC, which is not the rendering of that instant in \<^verbatim>\<open>TZ\<close>.
\<close>

theorem next_check_claim_zone:
  "TZ (sample_env (at 2 0 kiev)) = ''Europe/Kiev''
   \<and> checks (sample_env (at 2 0 kiev)) qualification_utc_claim = Inr [at 4 0 ''UTC'']
   \<and> next_check (sample_env (at 2 0 kiev)) qualification_utc_claim
       = Inr (Some (isoformat (sample_env (at 2 0 kiev)) (at 4 0 ''UTC'')))
   \<and> next_check (sample_env (at 2 0 kiev)) qualification_utc_claim
       \<noteq> Inr (Some (isoformat (sample_env (at 2 0 kiev))
              (astimezone (at 4 0 ''UTC'') (TZ (sample_env (at 2 0 kiev))))))"
  by (simp add: qualification_utc_claim_def next_check_defs sample_defs)

section \<open>The stand-still of claims\<close>













section \<open>The status of a new auction\<close>

text \<open>
  Claim C8, as the code has it. Line 106 declares \<^verbatim>\<open>default='active.tendering'\<close>: an
  auction made without an explicit status has the status \<^verbatim>\<open>active.tendering\<close>.
\<close>

theorem new_Auction_status:
  "Auction.status (new_Auction None pmt) = ''active.tendering''"
  by (simp add: new_Auction_def)

theorem new_Auction_status_counterexample:
  "Auction.status (new_Auction None None) \<noteq> ''draft''"
  by (simp add: new_Auction_def)

section \<open>Document validation\<close>








section \<open>The serialized tender period\<close>

text \<open>
  Claim C10. The serialized tender period is the stored one when it is present and has an
  end date. Otherwise, when the auction period has a start date, it is a period with no
  start date that ends at the business date of that start with an offset of minus one
  day. A tender period that passed \<^verbatim>\<open>validate_tenderPeriod\<close> without an end date comes
  with such a start date, whether the validated data lacks the key of the auction period
  or holds the auction period of the auction under it.
\<close>

theorem auction_tenderPeriod_serialized:
  "(tenderPeriod a = Some p \<and> endDate p \<noteq> None \<longrightarrow> auction_tenderPeriod env a = Inr p)
   \<and> (period_endDate (tenderPeriod a) = None \<and> Auction.auctionPeriod a = Some q
        \<and> startDate q = Some s \<longrightarrow>
        auction_tenderPeriod env a
          = Inr \<lparr>startDate = None,
                 endDate = Some (calculate_business_date env s (- timedelta_days 1) a)\<rparr>)
   \<and> (\<forall>data. (data = None \<or> data = Some (Auction.auctionPeriod a))
        \<and> validate_tenderPeriod data (tenderPeriod a) = Inr ()
        \<and> period_endDate (tenderPeriod a) = None \<longrightarrow>
        period_startDate (Auction.auctionPeriod a) \<noteq> None)"
proof (intro conjI impI allI)
  assume "tenderPeriod a = Some p \<and> endDate p \<noteq> None"
  then show "auction_tenderPeriod env a = Inr p"
    by (simp add: auction_tenderPeriod_def period_endDate_def)
next
  assume "period_endDate (tenderPeriod a) = None \<and> Auction.auctionPeriod a = Some q
      \<and> startDate q = Some s"
  then show "auction_tenderPeriod env a
      = Inr \<lparr>startDate = None,
             endDate = Some (calculate_business_date env s (- timedelta_days 1) a)\<rparr>"
    by (simp add: auction_tenderPeriod_def)
next
  fix data
  assume h: "(data = None \<or> data = Some (Auction.auctionPeriod a))
      \<and> validate_tenderPeriod data (tenderPeriod a) = Inr ()
      \<and> period_endDate (tenderPeriod a) = None"
  then have "data \<noteq> None"
    by (auto simp: validate_tenderPeriod_def)
  with h have passed: "validate_tenderPeriod (Some (Auction.auctionPeriod a)) (tenderPeriod a)
      = Inr ()"
    and no_end: "period_endDate (tenderPeriod a) = None"
    by auto
  show "period_startDate (Auction.auctionPeriod a) \<noteq> None"
  proof (cases "Auction.auctionPeriod a")
    case None
    with passed no_end show ?thesis by (simp add: validate_tenderPeriod_def)
  next
    case (Some q)
    with passed no_end show ?thesis
      by (simp add: validate_tenderPeriod_def period_startDate_def split: if_splits)
  qed
qed

theorem auction_tenderPeriod_serialized_witness:
  "auction_tenderPeriod (sample_env (at 0 0 kiev)) tendering_early_claim
     = Inr (period_to (at 10 0 ''UTC''))
   \<and> validate_tenderPeriod (Some (Auction.auctionPeriod auction_period_only))
        (tenderPeriod auction_period_only) = Inr ()
   \<and> tenderPeriod auction_period_only = None
   \<and> period_startDate (Auction.auctionPeriod auction_period_only) \<noteq> None
   \<and> auction_tenderPeriod (sample_env (at 0 0 kiev)) auction_period_only
       = Inr (period_to (at 4 0 kiev))"
proof -
  let ?env = "sample_env (at 0 0 kiev)"
  let ?data = "Some (Auction.auctionPeriod auction_period_only)"
  have stored: "tenderPeriod tendering_early_claim = Some (period_to (at 10 0 ''UTC''))
      \<and> endDate (period_to (at 10 0 ''UTC'')) \<noteq> None"
    by (simp add: tendering_early_claim_def new_Auction_def period_to_def)
  from mp [OF conjunct1 [OF auction_tenderPeriod_serialized] stored]
  have r1: "auction_tenderPeriod ?env tendering_early_claim = Inr (period_to (at 10 0 ''UTC''))" .
  have valid: "validate_tenderPeriod ?data (tenderPeriod auction_period_only) = Inr ()"
    and absent: "tenderPeriod auction_period_only = None"
    by (simp_all add: auction_period_only_def new_Auction_def validate_tenderPeriod_def
        period_endDate_def period_from_def)
  have derived: "period_endDate (tenderPeriod auction_period_only) = None
      \<and> Auction.auctionPeriod auction_period_only = Some (period_from (at 5 0 kiev))
      \<and> startDate (period_from (at 5 0 kiev)) = Some (at 5 0 kiev)"
    by (simp add: auction_period_only_def new_Auction_def period_endDate_def period_from_def)
  from mp [OF conjunct1 [OF conjunct2 [OF auction_tenderPeriod_serialized]] derived,
      of ?env]
  have r2: "auction_tenderPeriod ?env auction_period_only = Inr (period_to (at 4 0 kiev))"
    by (simp add: sample_defs)
  have "(?data = None \<or> ?data = Some (Auction.auctionPeriod auction_period_only))
      \<and> validate_tenderPeriod ?data (tenderPeriod auction_period_only) = Inr ()
      \<and> period_endDate (tenderPeriod auction_period_only) = None"
    using valid absent by (simp add: period_endDate_def)
  from mp [OF spec [OF conjunct2 [OF conjunct2 [OF auction_tenderPeriod_serialized]]] this]
  have r3: "period_startDate (Auction.auctionPeriod auction_period_only) \<noteq> None" .
  from r1 valid absent r2 r3 show ?thesis by simp
qed

end
